theory Spec2Isabelle
  imports Main "HOL-Library.Word"
begin

section \<open>Go values, types and errors\<close>

text \<open>
  The program is one generic function, \<^verbatim>\<open>ReadEnv[T any](key string, defaultValue T) (T, error)\<close>
  of \<^verbatim>\<open>env.go\<close>. A Go string is a sequence of bytes, which is what \<open>string\<close> is here.
  A \<^verbatim>\<open>float64\<close> is kept as its IEEE 754 bit pattern; the program never computes with it.
\<close>

type_synonym float64 = "64 word"

text \<open>
  The type argument \<open>T\<close>. \<open>TOther n\<close> is any other non-interface type (a struct, a slice, a
  named type such as \<^verbatim>\<open>type MyInt int\<close>), \<open>n\<close> being the name that the verb \<^verbatim>\<open>%T\<close> prints;
  \<open>TInterface\<close> is an interface type such as \<^verbatim>\<open>any\<close>.
\<close>

datatype gotype = TInt | TInt64 | TString | TBool | TFloat64 | TOther string | TInterface

text \<open>
  Values with their dynamic type. \<open>VInt\<close> and \<open>VInt64\<close> carry the number the machine integer
  denotes. The contents of a value of another type are opaque to the program (the second
  argument of \<open>VOther\<close>). \<open>VNil\<close> is the nil interface value.
\<close>

datatype goval =
    VInt int
  | VInt64 int
  | VString string
  | VBool bool
  | VFloat64 float64
  | VOther string string
  | VNil

text \<open>
  Errors. \<open>ErrSyntax\<close> and \<open>ErrRange\<close> are the two sentinels of package strconv, which Go
  compares by identity; \<open>NumError\<close> is \<^verbatim>\<open>*strconv.NumError{Func, Num, Err}\<close>; \<open>WrapError\<close> is
  what \<^verbatim>\<open>fmt.Errorf\<close> returns for a format with one \<^verbatim>\<open>%w\<close> (the formatted message and the
  wrapped error); \<open>ErrorString\<close> is what it returns for a format with no \<^verbatim>\<open>%w\<close>.
\<close>

datatype goerror =
    ErrSyntax
  | ErrRange
  | ErrorString string
  | NumError string string goerror
  | WrapError string goerror

datatype 'a outcome = Returns 'a | Panics

text \<open>
  The functions of the Go library that the program calls. They are not part of the
  repository, so the program is modelled over any implementation of them; section
  \<open>Package strconv\<close> below gives the one of the Go distribution.
  \<open>ParseInt\<close> takes the string, the base and the bit size; \<open>ParseFloat\<close> the string and the
  bit size; \<open>Quote\<close> is \<^verbatim>\<open>strconv.Quote\<close>, which the verb \<^verbatim>\<open>%q\<close> and \<^verbatim>\<open>NumError.Error\<close> apply
  to a string.
\<close>

record golib =
  Atoi :: "string \<Rightarrow> int \<times> goerror option"
  ParseInt :: "string \<Rightarrow> nat \<Rightarrow> nat \<Rightarrow> int \<times> goerror option"
  ParseBool :: "string \<Rightarrow> bool \<times> goerror option"
  ParseFloat :: "string \<Rightarrow> nat \<Rightarrow> float64 \<times> goerror option"
  Quote :: "string \<Rightarrow> string"

definition dquote :: char where
  "dquote = CHR 0x22"

definition backslash :: char where
  "backslash = CHR 0x5C"

text \<open>The method \<^verbatim>\<open>Error()\<close> of each kind of error.\<close>

fun Error :: "golib \<Rightarrow> goerror \<Rightarrow> string" where
  "Error L ErrSyntax = ''invalid syntax''"
| "Error L ErrRange = ''value out of range''"
| "Error L (ErrorString s) = s"
| "Error L (NumError fn num err) =
     ''strconv.'' @ fn @ '': parsing '' @ Quote L num @ '': '' @ Error L err"
| "Error L (WrapError msg err) = msg"

fun Unwrap :: "goerror \<Rightarrow> goerror option" where
  "Unwrap (NumError fn num err) = Some err"
| "Unwrap (WrapError msg err) = Some err"
| "Unwrap e = None"

text \<open>
  \<^verbatim>\<open>errors.Is(err, target)\<close>: walk the chain of \<^verbatim>\<open>Unwrap\<close> and compare each error with the
  target.
\<close>

fun errors_Is :: "goerror \<Rightarrow> goerror \<Rightarrow> bool" where
  "errors_Is (NumError fn num err) target =
     (NumError fn num err = target \<or> errors_Is err target)"
| "errors_Is (WrapError msg err) target =
     (WrapError msg err = target \<or> errors_Is err target)"
| "errors_Is e target = (e = target)"

text \<open>The verb \<^verbatim>\<open>%T\<close>: the name of the dynamic type of the argument.\<close>

fun fmt_T :: "goval \<Rightarrow> string" where
  "fmt_T (VInt n) = ''int''"
| "fmt_T (VInt64 n) = ''int64''"
| "fmt_T (VString s) = ''string''"
| "fmt_T (VBool b) = ''bool''"
| "fmt_T (VFloat64 f) = ''float64''"
| "fmt_T (VOther n c) = n"
| "fmt_T VNil = ''<nil>''"

text \<open>
  \<^verbatim>\<open>fmt.Errorf("failed to convert %q to <ty>: %w", envValue, err)\<close>: the message is the
  format with \<^verbatim>\<open>%q\<close> replaced by the quoted string and \<^verbatim>\<open>%w\<close> by \<^verbatim>\<open>err.Error()\<close>, and the
  result wraps \<open>err\<close>.
\<close>

definition Errorf_convert :: "golib \<Rightarrow> string \<Rightarrow> string \<Rightarrow> goerror \<Rightarrow> goerror" where
  "Errorf_convert L ty envValue err =
     WrapError (''failed to convert '' @ Quote L envValue @ '' to '' @ ty @ '': '' @ Error L err) err"

text \<open>\<^verbatim>\<open>fmt.Errorf("unsupported type for environment variable conversion: %T", defaultValue)\<close>\<close>

definition Errorf_unsupported :: "goval \<Rightarrow> goerror" where
  "Errorf_unsupported defaultValue =
     ErrorString (''unsupported type for environment variable conversion: '' @ fmt_T defaultValue)"

section \<open>The environment\<close>

text \<open>
  The process environment is a table from names to values. \<^verbatim>\<open>os.Getenv\<close> returns the value,
  which is empty if the variable is not present.
\<close>

type_synonym environ = "string \<rightharpoonup> string"

definition Getenv :: "environ \<Rightarrow> string \<Rightarrow> string" where
  "Getenv env key = (case env key of None \<Rightarrow> [] | Some v \<Rightarrow> v)"

section \<open>ReadEnv\<close>

text \<open>\<^verbatim>\<open>var result T\<close>: the zero value of \<open>T\<close>.\<close>

fun zero :: "gotype \<Rightarrow> goval" where
  "zero TInt = VInt 0"
| "zero TInt64 = VInt64 0"
| "zero TString = VString []"
| "zero TBool = VBool False"
| "zero TFloat64 = VFloat64 0"
| "zero (TOther n) = VOther n []"
| "zero TInterface = VNil"

text \<open>
  The dynamic type that a type switch on \<^verbatim>\<open>any(v)\<close> sees; a nil interface value has none
  and matches no case.
\<close>

fun dynType :: "goval \<Rightarrow> gotype option" where
  "dynType (VInt n) = Some TInt"
| "dynType (VInt64 n) = Some TInt64"
| "dynType (VString s) = Some TString"
| "dynType (VBool b) = Some TBool"
| "dynType (VFloat64 f) = Some TFloat64"
| "dynType (VOther n c) = Some (TOther n)"
| "dynType VNil = None"

text \<open>
  The type assertion \<^verbatim>\<open>any(v).(T)\<close> in its one-result form, which panics when the dynamic
  type of \<open>v\<close> is not \<open>T\<close> (for an interface type: when \<open>v\<close> is nil).
\<close>

definition type_assert :: "goval \<Rightarrow> gotype \<Rightarrow> goval outcome" where
  "type_assert v T =
     (if T = TInterface then (if v = VNil then Panics else Returns v)
      else if dynType v = Some T then Returns v else Panics)"

definition return_asserted :: "goval \<Rightarrow> gotype \<Rightarrow> (goval \<times> goerror option) outcome" where
  \<comment> \<open>\<^verbatim>\<open>return any(val).(T), nil\<close>\<close>
  "return_asserted v T =
     (case type_assert v T of Panics \<Rightarrow> Panics | Returns r \<Rightarrow> Returns (r, None))"

definition ReadEnv ::
  "golib \<Rightarrow> gotype \<Rightarrow> environ \<Rightarrow> string \<Rightarrow> goval \<Rightarrow> (goval \<times> goerror option) outcome" where
  "ReadEnv L T env key defaultValue =
     (let envValue = Getenv env key in
      if envValue = [] then Returns (defaultValue, None)
      else
        (case dynType (zero T) of
           Some TInt \<Rightarrow>
             (case Atoi L envValue of
                (val, Some err) \<Rightarrow> Returns (defaultValue, Some (Errorf_convert L ''int'' envValue err))
              | (val, None) \<Rightarrow> return_asserted (VInt val) T)
         | Some TInt64 \<Rightarrow>
             (case ParseInt L envValue 10 64 of
                (val, Some err) \<Rightarrow> Returns (defaultValue, Some (Errorf_convert L ''int64'' envValue err))
              | (val, None) \<Rightarrow> return_asserted (VInt64 val) T)
         | Some TString \<Rightarrow> return_asserted (VString envValue) T
         | Some TBool \<Rightarrow>
             (case ParseBool L envValue of
                (val, Some err) \<Rightarrow> Returns (defaultValue, Some (Errorf_convert L ''bool'' envValue err))
              | (val, None) \<Rightarrow> return_asserted (VBool val) T)
         | Some TFloat64 \<Rightarrow>
             (case ParseFloat L envValue 64 of
                (val, Some err) \<Rightarrow> Returns (defaultValue, Some (Errorf_convert L ''float64'' envValue err))
              | (val, None) \<Rightarrow> return_asserted (VFloat64 val) T)
         | _ \<Rightarrow> Returns (defaultValue, Some (Errorf_unsupported defaultValue))))"

definition supported :: "gotype \<Rightarrow> bool" where
  "supported T = (T = TInt \<or> T = TInt64 \<or> T = TString \<or> T = TBool \<or> T = TFloat64)"

section \<open>Package strconv\<close>

text \<open>
  Modelled from the spec: package strconv belongs to the Go distribution and is not among
  the sources of the repository. The spec names the conversions (a base-10 signed integer
  of the platform's width, a base-10 signed 64-bit integer, a conventional boolean literal,
  a base-10 floating-point literal) and the two categories of failure, syntax and range;
  the tests of the repository give the texts of the errors. The definitions of this section
  are the functions of the Go distribution that meet them and that the program calls:
  \<^verbatim>\<open>ParseBool\<close>, \<^verbatim>\<open>ParseUint\<close>, \<^verbatim>\<open>ParseInt\<close>, \<^verbatim>\<open>Atoi\<close>, \<^verbatim>\<open>ParseFloat\<close> and \<^verbatim>\<open>Quote\<close>.
  A byte is the number \<open>of_char c\<close>; a \<^verbatim>\<open>uint64\<close> is a natural number with the reduction
  modulo \<open>2 ^ 64\<close> written where the source can wrap; a signed integer is an \<open>int\<close> with
  the conversions written out.
\<close>

definition syntaxError :: "string \<Rightarrow> string \<Rightarrow> goerror" where
  "syntaxError fn str = NumError fn str ErrSyntax"

definition rangeError :: "string \<Rightarrow> string \<Rightarrow> goerror" where
  "rangeError fn str = NumError fn str ErrRange"

text \<open>
  Modelled from the spec: \<^verbatim>\<open>strconv.ParseBool\<close>, the "conventional boolean-literal grammar"
  of the spec. It accepts 1, t, T, TRUE, true, True, 0, f, F, FALSE, false and False; any
  other string is a syntax error.
\<close>

definition strconv_ParseBool :: "string \<Rightarrow> bool \<times> goerror option" where
  "strconv_ParseBool str =
     (if str \<in> set [''1'', ''t'', ''T'', ''true'', ''TRUE'', ''True''] then (True, None)
      else if str \<in> set [''0'', ''f'', ''F'', ''false'', ''FALSE'', ''False''] then (False, None)
      else (False, Some (syntaxError ''ParseBool'' str)))"

definition byte :: "char \<Rightarrow> nat" where
  "byte c = of_char c"

definition lower :: "nat \<Rightarrow> nat" where
  \<comment> \<open>\<^verbatim>\<open>c | ('x' - 'X')\<close>: set the bit of value 32\<close>
  "lower c = (if (c div 32) mod 2 = 0 then c + 32 else c)"

definition digit_val :: "nat \<Rightarrow> nat option" where
  \<comment> \<open>the value of a digit byte in \<^verbatim>\<open>ParseUint\<close>; \<open>None\<close> is the \<^verbatim>\<open>default\<close> case of its switch\<close>
  "digit_val c =
     (if 48 \<le> c \<and> c \<le> 57 then Some (c - 48)
      else if 97 \<le> lower c \<and> lower c \<le> 122 then Some (lower c - 97 + 10)
      else None)"

definition maxUint64 :: nat where
  "maxUint64 = 2 ^ 64 - 1"

text \<open>
  The loop of \<^verbatim>\<open>ParseUint\<close> over the bytes of the string, for an explicit base (the
  underscores that base 0 allows do not arise). \<open>n\<close> is the \<^verbatim>\<open>uint64\<close> accumulator.
\<close>

fun ParseUint_loop :: "nat \<Rightarrow> nat \<Rightarrow> nat \<Rightarrow> string \<Rightarrow> nat \<Rightarrow> string \<Rightarrow> nat \<times> goerror option" where
  "ParseUint_loop base cutoff maxVal s0 n [] = (n, None)"
| "ParseUint_loop base cutoff maxVal s0 n (c # cs) =
     (case digit_val (byte c) of
        None \<Rightarrow> (0, Some (syntaxError ''ParseUint'' s0))
      | Some d \<Rightarrow>
          if d \<ge> base then (0, Some (syntaxError ''ParseUint'' s0))
          else if n \<ge> cutoff then (maxVal, Some (rangeError ''ParseUint'' s0))
          else
            (let n' = (n * base) mod 2 ^ 64;
                 n1 = (n' + d) mod 2 ^ 64
             in if n1 < n' \<or> n1 > maxVal then (maxVal, Some (rangeError ''ParseUint'' s0))
                else ParseUint_loop base cutoff maxVal s0 n1 cs))"

text \<open>
  Modelled from the spec: \<^verbatim>\<open>strconv.ParseUint(s, base, bitSize)\<close>, on which \<^verbatim>\<open>ParseInt\<close>
  rests, for \<open>2 \<le> base \<le> 36\<close> and \<open>bitSize \<le> 64\<close>, which covers
  the calls made here: base 10 with bit size 64 or 0. \<open>intSize\<close> is the width of \<^verbatim>\<open>int\<close> on the
  platform, 32 or 64, which a bit size of 0 stands for.
\<close>

definition strconv_ParseUint :: "nat \<Rightarrow> string \<Rightarrow> nat \<Rightarrow> nat \<Rightarrow> nat \<times> goerror option" where
  "strconv_ParseUint intSize s base bitSize =
     (if s = [] then (0, Some (syntaxError ''ParseUint'' s))
      else
        (let bitSize' = (if bitSize = 0 then intSize else bitSize);
             cutoff = maxUint64 div base + 1;
             maxVal = 2 ^ bitSize' - 1
         in ParseUint_loop base cutoff maxVal s 0 s))"

definition to_signed :: "nat \<Rightarrow> int \<Rightarrow> int" where
  \<comment> \<open>conversion to the signed integer type of \<open>w\<close> bits: the value modulo \<open>2 ^ w\<close> in the signed range\<close>
  "to_signed w x = (x + 2 ^ (w - 1)) mod 2 ^ w - 2 ^ (w - 1)"

fun setFunc :: "string \<Rightarrow> goerror \<Rightarrow> goerror" where
  \<comment> \<open>\<^verbatim>\<open>err.(*NumError).Func = fn\<close>\<close>
  "setFunc fn (NumError f n e) = NumError fn n e"
| "setFunc fn e = e"

fun setNum :: "string \<Rightarrow> goerror \<Rightarrow> goerror" where
  \<comment> \<open>\<^verbatim>\<open>err.(*NumError).Num = num\<close>\<close>
  "setNum num (NumError f n e) = NumError f num e"
| "setNum num e = e"

fun numErr :: "goerror \<Rightarrow> goerror" where
  \<comment> \<open>\<^verbatim>\<open>err.(*NumError).Err\<close>\<close>
  "numErr (NumError f n e) = e"
| "numErr e = e"

text \<open>
  Modelled from the spec: \<^verbatim>\<open>strconv.ParseInt(s, base, bitSize)\<close>, the parser of "a base-10
  signed 64-bit integer" when called with 10 and 64, under the same bounds as \<^verbatim>\<open>ParseUint\<close>.
\<close>

definition strconv_ParseInt :: "nat \<Rightarrow> string \<Rightarrow> nat \<Rightarrow> nat \<Rightarrow> int \<times> goerror option" where
  "strconv_ParseInt intSize s base bitSize =
     (if s = [] then (0, Some (syntaxError ''ParseInt'' s))
      else
        (let s0 = s;
             neg = (hd s = CHR ''-'');
             s' = (if hd s = CHR ''+'' \<or> hd s = CHR ''-'' then tl s else s);
             (un, err) = strconv_ParseUint intSize s' base bitSize
         in if (case err of None \<Rightarrow> False | Some e \<Rightarrow> numErr e \<noteq> ErrRange)
            then (0, map_option (\<lambda>e. setNum s0 (setFunc ''ParseInt'' e)) err)
            else
              (let bitSize' = (if bitSize = 0 then intSize else bitSize);
                   cutoff = 2 ^ (bitSize' - 1)
               in if \<not> neg \<and> un \<ge> cutoff then (int cutoff - 1, Some (rangeError ''ParseInt'' s0))
                  else if neg \<and> un > cutoff then (- int cutoff, Some (rangeError ''ParseInt'' s0))
                  else
                    (let n = to_signed 64 (int un)
                     in (if neg then to_signed 64 (- n) else n, None)))))"

text \<open>
  The loop of the fast path of \<^verbatim>\<open>Atoi\<close>: \<^verbatim>\<open>ch -= '0'\<close> is a subtraction of bytes, and \<open>n\<close> is an
  \<^verbatim>\<open>int\<close> of \<open>intSize\<close> bits.
\<close>

fun Atoi_loop :: "nat \<Rightarrow> string \<Rightarrow> int \<Rightarrow> string \<Rightarrow> int \<times> goerror option" where
  "Atoi_loop intSize s0 n [] = (n, None)"
| "Atoi_loop intSize s0 n (c # cs) =
     (let ch = (byte c + 256 - 48) mod 256
      in if ch > 9 then (0, Some (syntaxError ''Atoi'' s0))
         else Atoi_loop intSize s0 (to_signed intSize (n * 10 + int ch)) cs)"

text \<open>
  Modelled from the spec: \<^verbatim>\<open>strconv.Atoi\<close>, the parser of "a base-10 signed integer sized to
  the platform's native int width".
\<close>

definition strconv_Atoi :: "nat \<Rightarrow> string \<Rightarrow> int \<times> goerror option" where
  "strconv_Atoi intSize s =
     (let sLen = length s
      in if intSize = 32 \<and> (0 < sLen \<and> sLen < 10) \<or> intSize = 64 \<and> (0 < sLen \<and> sLen < 19)
         then
           (let s0 = s;
                s' = (if hd s = CHR ''-'' \<or> hd s = CHR ''+'' then tl s else s)
            in if (hd s = CHR ''-'' \<or> hd s = CHR ''+'') \<and> length s' < 1
               then (0, Some (syntaxError ''Atoi'' s0))
               else
                 (case Atoi_loop intSize s0 0 s' of
                    (n, Some err) \<Rightarrow> (0, Some err)
                  | (n, None) \<Rightarrow> (if hd s0 = CHR ''-'' then to_signed intSize (- n) else n, None)))
         else
           (let (i64, err) = strconv_ParseInt intSize s 10 0
            in (to_signed intSize i64, map_option (setFunc ''Atoi'') err)))"


subsection \<open>Quoting\<close>

text \<open>
  \<^verbatim>\<open>utf8.DecodeRuneInString\<close>: the first rune of a string and its width in bytes; an invalid
  encoding gives \<open>(RuneError, 1)\<close>. The ranges are those of the tables \<^verbatim>\<open>first\<close> and
  \<^verbatim>\<open>acceptRanges\<close> of package utf8.
\<close>

definition RuneError :: nat where
  "RuneError = 0xFFFD"

definition is_cont :: "nat \<Rightarrow> bool" where
  \<comment> \<open>a continuation byte: \<^verbatim>\<open>locb <= b && b <= hicb\<close>\<close>
  "is_cont b = (0x80 \<le> b \<and> b \<le> 0xBF)"

definition DecodeRuneInString :: "string \<Rightarrow> nat \<times> nat" where
  "DecodeRuneInString s =
     (case map byte s of
        [] \<Rightarrow> (RuneError, 0)
      | s0 # rest \<Rightarrow>
          if s0 < 0x80 then (s0, 1)
          else if s0 < 0xC2 \<or> 0xF4 < s0 then (RuneError, 1)
          else
            (let sz = (if s0 < 0xE0 then 2 else if s0 < 0xF0 then 3 else 4);
                 lo = (if s0 = 0xE0 then 0xA0 else if s0 = 0xF0 then 0x90 else 0x80);
                 hi = (if s0 = 0xED then 0x9F else if s0 = 0xF4 then 0x8F else 0xBF)
             in if length s < sz then (RuneError, 1)
                else
                  (let s1 = rest ! 0
                   in if s1 < lo \<or> hi < s1 then (RuneError, 1)
                      else if sz \<le> 2 then ((s0 mod 32) * 64 + s1 mod 64, 2)
                      else
                        (let s2 = rest ! 1
                         in if \<not> is_cont s2 then (RuneError, 1)
                            else if sz \<le> 3
                            then ((s0 mod 16) * 4096 + (s1 mod 64) * 64 + s2 mod 64, 3)
                            else
                              (let s3 = rest ! 2
                               in if \<not> is_cont s3 then (RuneError, 1)
                                  else ((s0 mod 8) * 262144 + (s1 mod 64) * 4096
                                        + (s2 mod 64) * 64 + s3 mod 64, 4))))))"

definition ValidRune :: "nat \<Rightarrow> bool" where
  "ValidRune r = (r < 0xD800 \<or> (0xDFFF < r \<and> r \<le> 0x10FFFF))"

definition chr :: "nat \<Rightarrow> char" where
  "chr n = char_of n"

definition AppendRune :: "nat \<Rightarrow> string" where
  \<comment> \<open>\<^verbatim>\<open>utf8.AppendRune\<close>: the UTF-8 encoding of a rune\<close>
  "AppendRune r =
     (if r \<le> 0x7F then [chr r]
      else if r \<le> 0x7FF then [chr (0xC0 + r div 64), chr (0x80 + r mod 64)]
      else
        (let r' = (if ValidRune r then r else RuneError)
         in if r' \<le> 0xFFFF
            then [chr (0xE0 + r' div 4096), chr (0x80 + (r' div 64) mod 64), chr (0x80 + r' mod 64)]
            else [chr (0xF0 + r' div 262144), chr (0x80 + (r' div 4096) mod 64),
                  chr (0x80 + (r' div 64) mod 64), chr (0x80 + r' mod 64)]))"

text \<open>
  \<^verbatim>\<open>strconv.IsPrint\<close>. Up to \<open>0xFF\<close> the function decides by comparisons; beyond, it searches
  the tables of printable runes of the Unicode version of the Go release, which are the
  parameter \<open>tab\<close>.
\<close>

definition IsPrint :: "(nat \<Rightarrow> bool) \<Rightarrow> nat \<Rightarrow> bool" where
  "IsPrint tab r =
     (if r \<le> 0xFF then
        (if 0x20 \<le> r \<and> r \<le> 0x7E then True
         else if 0xA1 \<le> r \<and> r \<le> 0xFF then r \<noteq> 0xAD
         else False)
      else tab r)"

definition lowerhex :: "nat \<Rightarrow> char" where
  \<comment> \<open>\<^verbatim>\<open>lowerhex[d]\<close> for \<open>d < 16\<close>\<close>
  "lowerhex d = ''0123456789abcdef'' ! (d mod 16)"

fun hexdigits :: "nat \<Rightarrow> nat \<Rightarrow> string" where
  \<comment> \<open>the \<open>k\<close> lowest hexadecimal digits of \<open>r\<close>, the highest first\<close>
  "hexdigits 0 r = []"
| "hexdigits (Suc k) r = lowerhex (r div 16 ^ k) # hexdigits k r"

definition appendEscapedRune :: "(nat \<Rightarrow> bool) \<Rightarrow> nat \<Rightarrow> string" where
  \<comment> \<open>what \<^verbatim>\<open>appendEscapedRune(buf, r, '"', false, false)\<close> appends to \<open>buf\<close>\<close>
  "appendEscapedRune tab r =
     (if r = byte dquote \<or> r = byte backslash then [backslash, chr r]
      else if IsPrint tab r then AppendRune r
      else if r = 7 then [backslash, CHR ''a'']
      else if r = 8 then [backslash, CHR ''b'']
      else if r = 12 then [backslash, CHR ''f'']
      else if r = 10 then [backslash, CHR ''n'']
      else if r = 13 then [backslash, CHR ''r'']
      else if r = 9 then [backslash, CHR ''t'']
      else if r = 11 then [backslash, CHR ''v'']
      else if r < 0x20 \<or> r = 0x7F then [backslash, CHR ''x''] @ hexdigits 2 r
      else if \<not> ValidRune r then [backslash, CHR ''u''] @ hexdigits 4 RuneError
      else if r < 0x10000 then [backslash, CHR ''u''] @ hexdigits 4 r
      else [backslash, CHR ''U''] @ hexdigits 8 r)"

text \<open>
  The loop of \<^verbatim>\<open>appendQuotedWith\<close>: it takes one rune of \<open>width\<close> bytes off the string at each
  turn.
\<close>

function Quote_loop :: "(nat \<Rightarrow> bool) \<Rightarrow> string \<Rightarrow> string" where
  "Quote_loop tab s =
     (if s = [] then []
      else
        (let (r, width) = (if byte (hd s) \<ge> 0x80 then DecodeRuneInString s else (byte (hd s), 1))
         in (if width = 1 \<and> r = RuneError then [backslash, CHR ''x''] @ hexdigits 2 (byte (hd s))
             else appendEscapedRune tab r)
            @ Quote_loop tab (drop width s)))"
  by pat_completeness auto
termination
proof (relation "measure (\<lambda>(tab, s). length s)")
  fix tab :: "nat \<Rightarrow> bool" and s :: string and x :: "nat \<times> nat" and r width :: nat
  assume s: "s \<noteq> []"
    and x: "x = (if 128 \<le> byte (hd s) then DecodeRuneInString s else (byte (hd s), 1))"
    and rw: "(r, width) = x"
  from s obtain c cs where cs: "s = c # cs" by (cases s) auto
  have "0 < snd (DecodeRuneInString (c # cs))"
    by (simp add: DecodeRuneInString_def Let_def)
  with x rw cs have "0 < width" by (auto split: if_splits simp: snd_def split: prod.splits)
  with s show "((tab, drop width s), (tab, s)) \<in> measure (\<lambda>(tab, s). length s)"
    by simp
qed simp

declare Quote_loop.simps [simp del]

text \<open>
  Modelled from the spec: \<^verbatim>\<open>strconv.Quote\<close>, which renders the raw value in the message of a
  conversion error (the verb \<^verbatim>\<open>%q\<close>) and in the text of a \<^verbatim>\<open>NumError\<close>: a double-quoted Go
  string literal.
\<close>

definition strconv_Quote :: "(nat \<Rightarrow> bool) \<Rightarrow> string \<Rightarrow> string" where
  "strconv_Quote tab s = [dquote] @ Quote_loop tab s @ [dquote]"

subsection \<open>ParseFloat\<close>

text \<open>
  Modelled from the spec: \<^verbatim>\<open>strconv.ParseFloat(s, 64)\<close>, the parser of "a base-10
  floating-point literal". The scanning of the string follows the source (\<^verbatim>\<open>special\<close>,
  \<^verbatim>\<open>readFloat\<close>, \<^verbatim>\<open>underscoreOK\<close>, \<^verbatim>\<open>atof64\<close>, \<^verbatim>\<open>ParseFloat\<close>). The conversion of the number read
  to a \<^verbatim>\<open>float64\<close> is modelled from the documentation of \<^verbatim>\<open>ParseFloat\<close>: the result is the
  nearest floating-point number, rounded to even, and a number more than half a unit in the
  last place beyond the largest \<^verbatim>\<open>float64\<close> gives an infinity and \<^verbatim>\<open>ErrRange\<close>. The source
  reaches that result by several algorithms; it keeps the first 19 digits of the mantissa in
  a \<^verbatim>\<open>uint64\<close> and reads the string again when digits were dropped, where the model keeps all
  the digits.
\<close>

definition float64_bits :: "bool \<Rightarrow> nat \<Rightarrow> nat \<Rightarrow> float64" where
  \<comment> \<open>sign, biased exponent (11 bits) and fraction (52 bits)\<close>
  "float64_bits neg bexp frac = word_of_nat ((if neg then 2 ^ 63 else 0) + bexp * 2 ^ 52 + frac)"

definition Inf :: "bool \<Rightarrow> float64" where
  "Inf neg = float64_bits neg 2047 0"

definition NaN :: float64 where
  \<comment> \<open>\<^verbatim>\<open>math.NaN()\<close>\<close>
  "NaN = 0x7FF8000000000001"

fun bitlen :: "nat \<Rightarrow> nat" where
  "bitlen n = (if n = 0 then 0 else Suc (bitlen (n div 2)))"

definition round_half_even :: "nat \<Rightarrow> nat \<Rightarrow> nat" where
  \<comment> \<open>the integer nearest to \<open>a / b\<close>, the even one of two\<close>
  "round_half_even a b =
     (let q = a div b; r = a mod b
      in if 2 * r < b then q else if 2 * r > b then q + 1 else if even q then q else q + 1)"

definition scaled_ge :: "nat \<Rightarrow> nat \<Rightarrow> int \<Rightarrow> bool" where
  \<comment> \<open>\<open>num / den \<ge> 2 ^ e\<close>\<close>
  "scaled_ge num den e = (if e \<ge> 0 then num \<ge> den * 2 ^ nat e else num * 2 ^ nat (- e) \<ge> den)"

definition nearest_float64 :: "bool \<Rightarrow> nat \<Rightarrow> nat \<Rightarrow> float64 \<times> bool" where
  \<comment> \<open>the \<^verbatim>\<open>float64\<close> nearest to \<open>num / den\<close> with the sign \<open>neg\<close>, and whether it overflowed\<close>
  "nearest_float64 neg num den =
     (if num = 0 then (float64_bits neg 0 0, False)
      else
        (let e0 = int (bitlen num) - int (bitlen den);
             e = (if scaled_ge num den e0 then e0 else e0 - 1);
             e' = max e (- 1022);
             k = e' - 52;
             m = (if k \<ge> 0 then round_half_even num (den * 2 ^ nat k)
                  else round_half_even (num * 2 ^ nat (- k)) den);
             m' = (if m = 2 ^ 53 then 2 ^ 52 else m);
             e'' = (if m = 2 ^ 53 then e' + 1 else e')
         in if e'' > 1023 then (Inf neg, True)
            else if m' < 2 ^ 52 then (float64_bits neg 0 m', False)
            else (float64_bits neg (nat (e'' + 1023)) (m' - 2 ^ 52), False)))"

fun commonPrefixLenIgnoreCase :: "string \<Rightarrow> string \<Rightarrow> nat" where
  "commonPrefixLenIgnoreCase (c # cs) (p # ps) =
     (let b = (if 65 \<le> byte c \<and> byte c \<le> 90 then byte c + 32 else byte c)
      in if b \<noteq> byte p then 0 else Suc (commonPrefixLenIgnoreCase cs ps))"
| "commonPrefixLenIgnoreCase cs ps = 0"

definition special_inf :: "bool \<Rightarrow> nat \<Rightarrow> string \<Rightarrow> (float64 \<times> nat) option" where
  \<comment> \<open>the case \<^verbatim>\<open>'i', 'I'\<close> of \<^verbatim>\<open>special\<close>, which the case of a sign falls through to\<close>
  "special_inf neg nsign s =
     (let n = commonPrefixLenIgnoreCase s ''infinity'';
          n' = (if 3 < n \<and> n < 8 then 3 else n)
      in if n' = 3 \<or> n' = 8 then Some (Inf neg, nsign + n') else None)"

definition special :: "string \<Rightarrow> (float64 \<times> nat) option" where
  "special s =
     (case s of
        [] \<Rightarrow> None
      | c # cs \<Rightarrow>
          if c = CHR ''+'' \<or> c = CHR ''-'' then special_inf (c = CHR ''-'') 1 cs
          else if c = CHR ''i'' \<or> c = CHR ''I'' then special_inf False 0 s
          else if c = CHR ''n'' \<or> c = CHR ''N''
          then (if commonPrefixLenIgnoreCase s ''nan'' = 3 then Some (NaN, 3) else None)
          else None)"

definition is_digit :: "char \<Rightarrow> bool" where
  "is_digit c = (48 \<le> byte c \<and> byte c \<le> 57)"

definition is_hexletter :: "char \<Rightarrow> bool" where
  \<comment> \<open>\<^verbatim>\<open>'a' <= lower(c) && lower(c) <= 'f'\<close>\<close>
  "is_hexletter c = (97 \<le> lower (byte c) \<and> lower (byte c) \<le> 102)"

fun underscoreOK_loop :: "bool \<Rightarrow> char \<Rightarrow> string \<Rightarrow> bool" where
  "underscoreOK_loop hex saw [] = (saw \<noteq> CHR ''_'')"
| "underscoreOK_loop hex saw (c # cs) =
     (if is_digit c \<or> hex \<and> is_hexletter c then underscoreOK_loop hex CHR ''0'' cs
      else if c = CHR ''_'' then (if saw \<noteq> CHR ''0'' then False else underscoreOK_loop hex CHR ''_'' cs)
      else if saw = CHR ''_'' then False
      else underscoreOK_loop hex CHR ''!'' cs)"

definition underscoreOK :: "string \<Rightarrow> bool" where
  "underscoreOK s =
     (let s1 = (if length s \<ge> 1 \<and> (hd s = CHR ''-'' \<or> hd s = CHR ''+'') then tl s else s)
      in if length s1 \<ge> 2 \<and> hd s1 = CHR ''0''
            \<and> (lower (byte (s1 ! 1)) = 98 \<or> lower (byte (s1 ! 1)) = 111 \<or> lower (byte (s1 ! 1)) = 120)
         then underscoreOK_loop (lower (byte (s1 ! 1)) = 120) CHR ''0'' (drop 2 s1)
         else underscoreOK_loop False CHR ''^'' s1)"

record readFloat_state =
  rf_underscores :: bool
  rf_sawdot :: bool
  rf_sawdigits :: bool
  rf_nd :: nat
  rf_dp :: int
  rf_mantissa :: nat

text \<open>
  The loop of \<^verbatim>\<open>readFloat\<close> over the digits and the point; it returns the state and the rest
  of the string, from the byte where the source breaks out of the loop.
\<close>

fun readFloat_digits :: "nat \<Rightarrow> readFloat_state \<Rightarrow> string \<Rightarrow> readFloat_state \<times> string" where
  "readFloat_digits base st [] = (st, [])"
| "readFloat_digits base st (c # cs) =
     (if c = CHR ''_'' then readFloat_digits base (st\<lparr>rf_underscores := True\<rparr>) cs
      else if c = CHR ''.'' then
        (if rf_sawdot st then (st, c # cs)
         else readFloat_digits base (st\<lparr>rf_sawdot := True, rf_dp := int (rf_nd st)\<rparr>) cs)
      else if is_digit c then
        (if c = CHR ''0'' \<and> rf_nd st = 0
         then readFloat_digits base (st\<lparr>rf_sawdigits := True, rf_dp := rf_dp st - 1\<rparr>) cs
         else readFloat_digits base
                (st\<lparr>rf_sawdigits := True, rf_nd := rf_nd st + 1,
                    rf_mantissa := rf_mantissa st * base + (byte c - 48)\<rparr>) cs)
      else if base = 16 \<and> is_hexletter c then
        readFloat_digits base
          (st\<lparr>rf_sawdigits := True, rf_nd := rf_nd st + 1,
              rf_mantissa := rf_mantissa st * 16 + (lower (byte c) - 97 + 10)\<rparr>) cs
      else (st, c # cs))"

text \<open>The loop over the digits of the exponent, which stops growing at 10000.\<close>

fun readFloat_exp :: "nat \<Rightarrow> bool \<Rightarrow> string \<Rightarrow> nat \<times> bool \<times> string" where
  "readFloat_exp e u [] = (e, u, [])"
| "readFloat_exp e u (c # cs) =
     (if c = CHR ''_'' then readFloat_exp e True cs
      else if is_digit c then readFloat_exp (if e < 10000 then e * 10 + (byte c - 48) else e) u cs
      else (e, u, c # cs))"

definition readFloat_finish ::
  "string \<Rightarrow> bool \<Rightarrow> bool \<Rightarrow> readFloat_state \<Rightarrow> int \<Rightarrow> bool \<Rightarrow> string
   \<Rightarrow> (bool \<times> bool \<times> nat \<times> int \<times> nat) option" where
  \<comment> \<open>the end of \<^verbatim>\<open>readFloat\<close>, from \<^verbatim>\<open>if mantissa != 0\<close>, with \<open>rest\<close> the bytes not read\<close>
  "readFloat_finish s neg hex st dp u rest =
     (let i = length s - length rest;
          ndMant = (if hex then int (rf_nd st) * 4 else int (rf_nd st));
          exp = (if rf_mantissa st \<noteq> 0 then dp - ndMant else 0)
      in if u \<and> \<not> underscoreOK (take i s) then None
         else Some (neg, hex, rf_mantissa st, exp, i))"

text \<open>
  \<^verbatim>\<open>readFloat\<close>: the sign, whether the number is hexadecimal, the mantissa, the exponent (of
  10, or of 2 for a hexadecimal number) and the number of bytes read; \<open>None\<close> is
  \<^verbatim>\<open>ok == false\<close>.
\<close>

definition readFloat :: "string \<Rightarrow> (bool \<times> bool \<times> nat \<times> int \<times> nat) option" where
  "readFloat s =
     (if s = [] then None
      else
        (let neg = (hd s = CHR ''-'');
             s1 = (if hd s = CHR ''+'' \<or> hd s = CHR ''-'' then tl s else s);
             hex = (2 < length s1 \<and> hd s1 = CHR ''0'' \<and> lower (byte (s1 ! 1)) = 120);
             s2 = (if hex then drop 2 s1 else s1);
             expChar = (if hex then 112 else 101);
             (st, s3) = readFloat_digits (if hex then 16 else 10)
                          \<lparr>rf_underscores = False, rf_sawdot = False, rf_sawdigits = False,
                           rf_nd = 0, rf_dp = 0, rf_mantissa = 0\<rparr> s2
         in if \<not> rf_sawdigits st then None
            else
              (let dp0 = (if rf_sawdot st then rf_dp st else int (rf_nd st));
                   dp = (if hex then dp0 * 4 else dp0)
               in if s3 \<noteq> [] \<and> lower (byte (hd s3)) = expChar then
                    (let s4 = tl s3
                     in if s4 = [] then None
                        else
                          (let esign = (if hd s4 = CHR ''-'' then - 1 else 1);
                               s5 = (if hd s4 = CHR ''+'' \<or> hd s4 = CHR ''-'' then tl s4 else s4)
                           in if s5 = [] \<or> \<not> is_digit (hd s5) then None
                              else
                                (let (e, u, s6) = readFloat_exp 0 (rf_underscores st) s5
                                 in readFloat_finish s neg hex st (dp + int e * esign) u s6)))
                  else if hex then None
                  else readFloat_finish s neg hex st dp (rf_underscores st) s3)))"

definition atof64 :: "string \<Rightarrow> float64 \<times> nat \<times> goerror option" where
  "atof64 s =
     (case special s of
        Some (val, n) \<Rightarrow> (val, n, None)
      | None \<Rightarrow>
          (case readFloat s of
             None \<Rightarrow> (0, 0, Some (syntaxError ''ParseFloat'' s))
           | Some (neg, hex, mantissa, exp, n) \<Rightarrow>
               (let b = (if hex then 2 else 10);
                    (f, ovf) = (if exp \<ge> 0 then nearest_float64 neg (mantissa * b ^ nat exp) 1
                                else nearest_float64 neg mantissa (b ^ nat (- exp)))
                in (f, n, if ovf then Some (rangeError ''ParseFloat'' (if hex then take n s else s))
                          else None))))"

definition strconv_ParseFloat :: "string \<Rightarrow> nat \<Rightarrow> float64 \<times> goerror option" where
  \<comment> \<open>for the bit size 64, the one the program passes\<close>
  "strconv_ParseFloat s bitSize =
     (let (f, n, err) = atof64 s
      in if n \<noteq> length s \<and> (case err of None \<Rightarrow> True | Some e \<Rightarrow> numErr e \<noteq> ErrSyntax)
         then (0, Some (syntaxError ''ParseFloat'' s))
         else (f, err))"

text \<open>
  Package strconv as the program sees it, on a platform whose \<^verbatim>\<open>int\<close> has \<open>intSize\<close> bits and
  with the table \<open>tab\<close> of the printable runes beyond \<open>0xFF\<close>.
\<close>

definition strconv :: "nat \<Rightarrow> (nat \<Rightarrow> bool) \<Rightarrow> golib" where
  "strconv intSize tab =
     \<lparr> Atoi = strconv_Atoi intSize,
       ParseInt = strconv_ParseInt intSize,
       ParseBool = strconv_ParseBool,
       ParseFloat = strconv_ParseFloat,
       Quote = strconv_Quote tab \<rparr>"

text \<open>
  A table with no printable rune beyond \<open>0xFF\<close>; a table matters only for a string that
  holds such a rune.
\<close>

definition noWide :: "nat \<Rightarrow> bool" where
  "noWide r = False"

section \<open>Notions of the specification\<close>

text \<open>
  \<open>converted L T raw v\<close>: the conversion that ReadEnv applies for \<open>T\<close> succeeds on \<open>raw\<close> and
  gives \<open>v\<close> ("a value successfully parsed from the raw string").
\<close>

definition converted :: "golib \<Rightarrow> gotype \<Rightarrow> string \<Rightarrow> goval \<Rightarrow> bool" where
  "converted L T raw v =
     (case T of
        TInt \<Rightarrow> snd (Atoi L raw) = None \<and> v = VInt (fst (Atoi L raw))
      | TInt64 \<Rightarrow> snd (ParseInt L raw 10 64) = None \<and> v = VInt64 (fst (ParseInt L raw 10 64))
      | TString \<Rightarrow> v = VString raw
      | TBool \<Rightarrow> snd (ParseBool L raw) = None \<and> v = VBool (fst (ParseBool L raw))
      | TFloat64 \<Rightarrow> snd (ParseFloat L raw 64) = None \<and> v = VFloat64 (fst (ParseFloat L raw 64))
      | TOther n \<Rightarrow> False
      | TInterface \<Rightarrow> False)"

text \<open>
  \<open>parse_error L T raw\<close>: the error, if any, of the conversion that ReadEnv applies for \<open>T\<close>
  ("raw fails to parse as \<open>T\<close>").
\<close>

definition parse_error :: "golib \<Rightarrow> gotype \<Rightarrow> string \<Rightarrow> goerror option" where
  "parse_error L T raw =
     (case T of
        TInt \<Rightarrow> snd (Atoi L raw)
      | TInt64 \<Rightarrow> snd (ParseInt L raw 10 64)
      | TBool \<Rightarrow> snd (ParseBool L raw)
      | TFloat64 \<Rightarrow> snd (ParseFloat L raw 64)
      | TString \<Rightarrow> None
      | TOther n \<Rightarrow> None
      | TInterface \<Rightarrow> None)"


section \<open>Properties of ReadEnv\<close>

lemma return_asserted_same:
  "dynType v = Some T \<Longrightarrow> return_asserted v T = Returns (v, None)"
  by (cases T) (auto simp: return_asserted_def type_assert_def)

text \<open>
  Claim C9. For every type argument, key, default value, environment and implementation of
  the library functions, ReadEnv returns a pair of a value and an error and does not
  panic; each type assertion that converts a parsed value back to \<open>T\<close> succeeds in the case
  of the type switch where it stands.
\<close>

theorem ReadEnv_never_panics:
  "ReadEnv L T env key d \<noteq> Panics
   \<and> (\<exists>v e. ReadEnv L T env key d = Returns (v, e))
   \<and> type_assert (VInt n) TInt = Returns (VInt n)
   \<and> type_assert (VInt64 n) TInt64 = Returns (VInt64 n)
   \<and> type_assert (VString s) TString = Returns (VString s)
   \<and> type_assert (VBool b) TBool = Returns (VBool b)
   \<and> type_assert (VFloat64 f) TFloat64 = Returns (VFloat64 f)"
proof -
  have ret: "\<exists>v e. ReadEnv L T env key d = Returns (v, e)"
    by (cases T)
       (auto simp: ReadEnv_def Let_def return_asserted_same split: prod.splits option.splits)
  then have "ReadEnv L T env key d \<noteq> Panics" by auto
  with ret show ?thesis by (simp add: type_assert_def)
qed


subsection \<open>Package strconv on the values of the tests\<close>

lemma Atoi_123: "intSize = 32 \<or> intSize = 64 \<Longrightarrow> strconv_Atoi intSize ''123'' = (123, None)"
  by (auto simp add: strconv_Atoi_def Let_def byte_def to_signed_def)


lemma Atoi_abc:
  "intSize = 32 \<or> intSize = 64 \<Longrightarrow>
   strconv_Atoi intSize ''abc'' = (0, Some (NumError ''Atoi'' ''abc'' ErrSyntax))"
  by (auto simp add: strconv_Atoi_def Let_def byte_def to_signed_def syntaxError_def)

lemma Atoi_too_big:
  "strconv_Atoi 64 ''99999999999999999999''
   = (9223372036854775807, Some (NumError ''Atoi'' ''99999999999999999999'' ErrRange))"
  by (simp add: strconv_Atoi_def strconv_ParseInt_def strconv_ParseUint_def Let_def byte_def
        to_signed_def digit_val_def maxUint64_def lower_def rangeError_def)







lemma ParseFloat_not_a_float:
  "strconv_ParseFloat ''not_a_float'' 64
   = (0, Some (NumError ''ParseFloat'' ''not_a_float'' ErrSyntax))"
  by (simp add: strconv_ParseFloat_def atof64_def special_def readFloat_def Let_def byte_def
        lower_def is_digit_def is_hexletter_def readFloat_finish_def syntaxError_def)







subsection \<open>The errors of package strconv\<close>

lemma ParseUint_loop_error:
  "ParseUint_loop base cutoff maxVal s0 n s = (v, Some e) \<Longrightarrow>
   e = NumError ''ParseUint'' s0 ErrSyntax \<or> e = NumError ''ParseUint'' s0 ErrRange"
  by (induction s arbitrary: n)
     (auto simp: Let_def syntaxError_def rangeError_def split: option.splits if_splits)

lemma ParseUint_error:
  "strconv_ParseUint intSize s base bitSize = (v, Some e) \<Longrightarrow>
   e = NumError ''ParseUint'' s ErrSyntax \<or> e = NumError ''ParseUint'' s ErrRange"
  by (auto simp: strconv_ParseUint_def Let_def syntaxError_def split: if_splits
           dest: ParseUint_loop_error)

lemma ParseInt_error:
  assumes "strconv_ParseInt intSize s base bitSize = (v, Some e)"
  shows "e = NumError ''ParseInt'' s ErrSyntax \<or> e = NumError ''ParseInt'' s ErrRange"
proof (cases "s = []")
  case True
  with assms show ?thesis by (simp add: strconv_ParseInt_def syntaxError_def)
next
  case False
  obtain un err where u: "strconv_ParseUint intSize
      (if hd s = CHR ''+'' \<or> hd s = CHR ''-'' then tl s else s) base bitSize = (un, err)"
    by (cases "strconv_ParseUint intSize
      (if hd s = CHR ''+'' \<or> hd s = CHR ''-'' then tl s else s) base bitSize")
  show ?thesis
  proof (cases err)
    case None
    with assms False u show ?thesis
      by (auto simp: strconv_ParseInt_def Let_def rangeError_def split: if_splits)
  next
    case (Some e')
    with u have "e' = NumError ''ParseUint'' (if hd s = CHR ''+'' \<or> hd s = CHR ''-'' then tl s else s) ErrSyntax
               \<or> e' = NumError ''ParseUint'' (if hd s = CHR ''+'' \<or> hd s = CHR ''-'' then tl s else s) ErrRange"
      by (auto dest: ParseUint_error)
    with assms False u Some show ?thesis
      by (auto simp: strconv_ParseInt_def Let_def rangeError_def split: if_splits)
  qed
qed

lemma Atoi_loop_error:
  "Atoi_loop intSize s0 n s = (v, Some e) \<Longrightarrow> e = NumError ''Atoi'' s0 ErrSyntax"
  by (induction s arbitrary: n) (auto simp: Let_def syntaxError_def split: if_splits)

lemma Atoi_error:
  assumes "strconv_Atoi intSize s = (v, Some e)"
  shows "e = NumError ''Atoi'' s ErrSyntax \<or> e = NumError ''Atoi'' s ErrRange"
proof (cases "intSize = 32 \<and> (0 < length s \<and> length s < 10) \<or> intSize = 64 \<and> (0 < length s \<and> length s < 19)")
  case True
  with assms show ?thesis
    by (auto simp: strconv_Atoi_def Let_def syntaxError_def
             split: if_splits prod.splits option.splits dest: Atoi_loop_error)
next
  case False
  obtain i64 err where p: "strconv_ParseInt intSize s 10 0 = (i64, err)"
    by (cases "strconv_ParseInt intSize s 10 0")
  with assms False obtain e' where "err = Some e'" "e = setFunc ''Atoi'' e'"
    by (auto simp: strconv_Atoi_def Let_def)
  with p show ?thesis by (auto dest: ParseInt_error)
qed

lemma ParseBool_error:
  "strconv_ParseBool s = (v, Some e) \<Longrightarrow> e = NumError ''ParseBool'' s ErrSyntax"
  by (auto simp: strconv_ParseBool_def syntaxError_def split: if_splits)

lemma atof64_error:
  "atof64 s = (f, n, Some e) \<Longrightarrow>
   e = NumError ''ParseFloat'' s ErrSyntax \<or> e = NumError ''ParseFloat'' (take n s) ErrRange
   \<or> e = NumError ''ParseFloat'' s ErrRange"
  by (auto simp: atof64_def Let_def syntaxError_def rangeError_def
           split: option.splits prod.splits if_splits)

lemma ParseFloat_error:
  assumes "strconv_ParseFloat s bitSize = (v, Some e)"
  shows "e = NumError ''ParseFloat'' s ErrSyntax \<or> e = NumError ''ParseFloat'' s ErrRange"
proof -
  obtain f n err where a: "atof64 s = (f, n, err)" by (cases "atof64 s") auto
  show ?thesis
  proof (cases err)
    case None
    with assms a show ?thesis
      by (auto simp: strconv_ParseFloat_def syntaxError_def split: if_splits)
  next
    case (Some e')
    with a have "e' = NumError ''ParseFloat'' s ErrSyntax \<or> e' = NumError ''ParseFloat'' (take n s) ErrRange
       \<or> e' = NumError ''ParseFloat'' s ErrRange"
      by (auto dest: atof64_error)
    with assms a Some show ?thesis
      by (auto simp: strconv_ParseFloat_def syntaxError_def split: if_splits)
  qed
qed

lemma strconv_parse_error:
  assumes "parse_error (strconv intSize tab) T raw = Some err"
  shows "\<exists>fn. err = NumError fn raw ErrSyntax \<or> err = NumError fn raw ErrRange"
proof (cases T)
  case TInt
  with assms obtain v where "strconv_Atoi intSize raw = (v, Some err)"
    by (cases "strconv_Atoi intSize raw") (simp add: parse_error_def strconv_def)
  then show ?thesis by (auto dest: Atoi_error)
next
  case TInt64
  with assms obtain v where "strconv_ParseInt intSize raw 10 64 = (v, Some err)"
    by (cases "strconv_ParseInt intSize raw 10 64") (simp add: parse_error_def strconv_def)
  then show ?thesis by (auto dest: ParseInt_error)
next
  case TBool
  with assms obtain v where "strconv_ParseBool raw = (v, Some err)"
    by (cases "strconv_ParseBool raw") (simp add: parse_error_def strconv_def)
  then show ?thesis by (auto dest: ParseBool_error)
next
  case TFloat64
  with assms obtain v where "strconv_ParseFloat raw 64 = (v, Some err)"
    by (cases "strconv_ParseFloat raw 64") (simp add: parse_error_def strconv_def)
  then show ?thesis by (auto dest: ParseFloat_error)
qed (use assms in \<open>simp_all add: parse_error_def\<close>)

subsection \<open>The branches of ReadEnv\<close>

lemma Getenv_empty_iff: "Getenv env key = [] \<longleftrightarrow> env key = None \<or> env key = Some []"
  by (simp add: Getenv_def split: option.splits)


lemma ReadEnv_empty: "Getenv env key = [] \<Longrightarrow> ReadEnv L T env key d = Returns (d, None)"
  by (simp add: ReadEnv_def)

lemma ReadEnv_TInt:
  "Getenv env key \<noteq> [] \<Longrightarrow>
   ReadEnv L TInt env key d =
     (case Atoi L (Getenv env key) of
        (val, Some err) \<Rightarrow> Returns (d, Some (Errorf_convert L ''int'' (Getenv env key) err))
      | (val, None) \<Rightarrow> Returns (VInt val, None))"
  by (simp add: ReadEnv_def return_asserted_same split: prod.splits option.splits)

lemma ReadEnv_TInt64:
  "Getenv env key \<noteq> [] \<Longrightarrow>
   ReadEnv L TInt64 env key d =
     (case ParseInt L (Getenv env key) 10 64 of
        (val, Some err) \<Rightarrow> Returns (d, Some (Errorf_convert L ''int64'' (Getenv env key) err))
      | (val, None) \<Rightarrow> Returns (VInt64 val, None))"
  by (simp add: ReadEnv_def return_asserted_same split: prod.splits option.splits)

lemma ReadEnv_TString:
  "Getenv env key \<noteq> [] \<Longrightarrow> ReadEnv L TString env key d = Returns (VString (Getenv env key), None)"
  by (simp add: ReadEnv_def return_asserted_same)

lemma ReadEnv_TBool:
  "Getenv env key \<noteq> [] \<Longrightarrow>
   ReadEnv L TBool env key d =
     (case ParseBool L (Getenv env key) of
        (val, Some err) \<Rightarrow> Returns (d, Some (Errorf_convert L ''bool'' (Getenv env key) err))
      | (val, None) \<Rightarrow> Returns (VBool val, None))"
  by (simp add: ReadEnv_def return_asserted_same split: prod.splits option.splits)

lemma ReadEnv_TFloat64:
  "Getenv env key \<noteq> [] \<Longrightarrow>
   ReadEnv L TFloat64 env key d =
     (case ParseFloat L (Getenv env key) 64 of
        (val, Some err) \<Rightarrow> Returns (d, Some (Errorf_convert L ''float64'' (Getenv env key) err))
      | (val, None) \<Rightarrow> Returns (VFloat64 val, None))"
  by (simp add: ReadEnv_def return_asserted_same split: prod.splits option.splits)

lemma ReadEnv_not_supported:
  "\<not> supported T \<Longrightarrow> Getenv env key \<noteq> [] \<Longrightarrow>
   ReadEnv L T env key d = Returns (d, Some (Errorf_unsupported d))"
  by (cases T) (simp_all add: ReadEnv_def supported_def)

subsection \<open>Absent and empty variables\<close>

text \<open>
  Claim C1. For every supported type and every default value, if the variable named by the
  key is not set, or is set to the empty string, ReadEnv returns the default value and no
  error; the result for the variable unset and the result for the variable set to the empty
  string are the same.
\<close>

theorem ReadEnv_unset_or_empty:
  assumes "supported T" and "env key = None \<or> env key = Some []"
  shows "ReadEnv L T env key d = Returns (d, None)
         \<and> ReadEnv L T (env(key := None)) key d = ReadEnv L T (env(key \<mapsto> [])) key d"
proof -
  from assms(2) have "Getenv env key = []" by (simp add: Getenv_empty_iff)
  then have "ReadEnv L T env key d = Returns (d, None)" by (rule ReadEnv_empty)
  moreover have "ReadEnv L T (env(key := None)) key d = Returns (d, None)"
    by (rule ReadEnv_empty) (simp add: Getenv_def)
  moreover have "ReadEnv L T (env(key \<mapsto> [])) key d = Returns (d, None)"
    by (rule ReadEnv_empty) (simp add: Getenv_def)
  ultimately show ?thesis by simp
qed

theorem ReadEnv_unset_or_empty_witness:
  "ReadEnv (strconv 64 noWide) TInt Map.empty ''NON_EXISTENT_INT'' (VInt 456) = Returns (VInt 456, None)
   \<and> ReadEnv (strconv 64 noWide) TBool [''TEST_EMPTY'' \<mapsto> []] ''TEST_EMPTY'' (VBool True)
       = Returns (VBool True, None)"
proof -
  have s1: "supported TInt" and s2: "supported TBool" by (simp_all add: supported_def)
  have e1: "(Map.empty :: environ) ''NON_EXISTENT_INT'' = None \<or> (Map.empty :: environ) ''NON_EXISTENT_INT'' = Some []"
    by simp
  have e2: "[''TEST_EMPTY'' \<mapsto> []] ''TEST_EMPTY'' = None \<or> [''TEST_EMPTY'' \<mapsto> []] ''TEST_EMPTY'' = Some []"
    by simp
  from ReadEnv_unset_or_empty [where env = Map.empty and key = "''NON_EXISTENT_INT''", OF s1 e1]
       ReadEnv_unset_or_empty [where env = "[''TEST_EMPTY'' \<mapsto> []]" and key = "''TEST_EMPTY''", OF s2 e2]
  show ?thesis by blast
qed

text \<open>
  Claim C10. For a type outside the supported set, ReadEnv returns the default value and no
  error when the variable is unset or set to the empty string; it returns the error for an
  unsupported type exactly when the variable has a non-empty value, since the test for the
  empty value stands before the type switch.
\<close>

theorem ReadEnv_unsupported_unset_or_empty:
  assumes "\<not> supported T"
  shows "ReadEnv L T env key d =
           (if env key = None \<or> env key = Some [] then Returns (d, None)
            else Returns (d, Some (Errorf_unsupported d)))"
proof (cases "Getenv env key = []")
  case True
  then show ?thesis by (simp add: ReadEnv_empty Getenv_empty_iff)
next
  case False
  with assms have "ReadEnv L T env key d = Returns (d, Some (Errorf_unsupported d))"
    by (rule ReadEnv_not_supported)
  with False show ?thesis by (simp add: Getenv_empty_iff)
qed

theorem ReadEnv_unsupported_unset_or_empty_witness:
  "ReadEnv (strconv 64 noWide) (TOther ''[]int'') Map.empty ''TEST_SLICE'' (VOther ''[]int'' ''[10 20]'')
     = Returns (VOther ''[]int'' ''[10 20]'', None)
   \<and> ReadEnv (strconv 64 noWide) (TOther ''[]int'') [''TEST_SLICE'' \<mapsto> []] ''TEST_SLICE''
       (VOther ''[]int'' ''[10 20]'')
     = Returns (VOther ''[]int'' ''[10 20]'', None)
   \<and> ReadEnv (strconv 64 noWide) (TOther ''[]int'') [''TEST_SLICE'' \<mapsto> ''1,2,3''] ''TEST_SLICE''
       (VOther ''[]int'' ''[10 20]'')
     = Returns (VOther ''[]int'' ''[10 20]'',
         Some (ErrorString ''unsupported type for environment variable conversion: []int''))"
proof -
  have n: "\<not> supported (TOther ''[]int'')" by (simp add: supported_def)
  show ?thesis
    using ReadEnv_unsupported_unset_or_empty [OF n, of "strconv 64 noWide" Map.empty "''TEST_SLICE''"
            "VOther ''[]int'' ''[10 20]''"]
          ReadEnv_unsupported_unset_or_empty [OF n, of "strconv 64 noWide" "[''TEST_SLICE'' \<mapsto> []]"
            "''TEST_SLICE''" "VOther ''[]int'' ''[10 20]''"]
          ReadEnv_unsupported_unset_or_empty [OF n, of "strconv 64 noWide"
            "[''TEST_SLICE'' \<mapsto> ''1,2,3'']" "''TEST_SLICE''" "VOther ''[]int'' ''[10 20]''"]
    by (simp add: Errorf_unsupported_def)
qed

subsection \<open>Unsupported types\<close>

text \<open>
  Claim C3 as stated, for every raw value, fails for the empty one: with the variable set
  to the empty string ReadEnv returns no error for a slice type.
\<close>

theorem ReadEnv_unsupported_empty_counterexample:
  "ReadEnv (strconv 64 noWide) (TOther ''[]int'') [''TEST_SLICE'' \<mapsto> []] ''TEST_SLICE''
     (VOther ''[]int'' ''[10 20]'')
   = Returns (VOther ''[]int'' ''[10 20]'', None)
   \<and> ReadEnv (strconv 64 noWide) (TOther ''[]int'') [''TEST_SLICE'' \<mapsto> []] ''TEST_SLICE''
       (VOther ''[]int'' ''[10 20]'')
     \<noteq> Returns (VOther ''[]int'' ''[10 20]'',
          Some (ErrorString ''unsupported type for environment variable conversion: []int''))"
  by (simp add: ReadEnv_def Getenv_def)

text \<open>
  Claim C3, amended. For every type outside the supported set and every non-empty raw value
  of the variable, ReadEnv returns the default value and an error whose message is
  \<^verbatim>\<open>unsupported type for environment variable conversion: \<close> followed by the name of the
  dynamic type of the default value; the result is the same whatever the raw value holds
  and whatever the parsing functions do, so no parsing takes part in it.
\<close>

theorem ReadEnv_unsupported_type:
  assumes "\<not> supported T" and "env key = Some raw" and "raw \<noteq> []"
  shows "ReadEnv L T env key d =
           Returns (d, Some (ErrorString
             (''unsupported type for environment variable conversion: '' @ fmt_T d)))
         \<and> Error L (ErrorString (''unsupported type for environment variable conversion: '' @ fmt_T d))
             = ''unsupported type for environment variable conversion: '' @ fmt_T d
         \<and> ReadEnv L' T env key d = ReadEnv L T env key d"
proof -
  from assms(2,3) have ne: "Getenv env key \<noteq> []" by (simp add: Getenv_def)
  from ReadEnv_not_supported [OF assms(1) ne] show ?thesis
    by (simp add: Errorf_unsupported_def)
qed

theorem ReadEnv_unsupported_type_witness:
  "ReadEnv (strconv 64 noWide) (TOther ''struct { Name string }'') [''TEST_STRUCT'' \<mapsto> ''{}'']
     ''TEST_STRUCT'' (VOther ''struct { Name string }'' ''{default}'')
   = Returns (VOther ''struct { Name string }'' ''{default}'',
       Some (ErrorString
         ''unsupported type for environment variable conversion: struct { Name string }''))"
proof -
  have n: "\<not> supported (TOther ''struct { Name string }'')" by (simp add: supported_def)
  have e: "[''TEST_STRUCT'' \<mapsto> ''{}''] ''TEST_STRUCT'' = Some ''{}''" by simp
  have r: "''{}'' \<noteq> []" by simp
  from ReadEnv_unsupported_type [where env = "[''TEST_STRUCT'' \<mapsto> ''{}'']" and key = "''TEST_STRUCT''"
         and L = "strconv 64 noWide" and d = "VOther ''struct { Name string }'' ''{default}''",
         OF n e r]
  show ?thesis by simp
qed

subsection \<open>Strings\<close>

text \<open>
  Claim C8 as stated, for any string the variable is set to, fails for the empty string:
  ReadEnv then returns the default value, not the raw value.
\<close>

theorem ReadEnv_string_empty_counterexample:
  "ReadEnv (strconv 64 noWide) TString [''TEST_EMPTY'' \<mapsto> []] ''TEST_EMPTY'' (VString ''empty_default'')
   = Returns (VString ''empty_default'', None)
   \<and> ReadEnv (strconv 64 noWide) TString [''TEST_EMPTY'' \<mapsto> []] ''TEST_EMPTY''
       (VString ''empty_default'')
     \<noteq> Returns (VString [], None)"
  by (simp add: ReadEnv_def Getenv_def)

text \<open>
  Claim C8, amended. For the type string and any non-empty string the variable is set to,
  ReadEnv returns that string itself, unchanged, and no error; no library function takes
  part in the result.
\<close>

theorem ReadEnv_string:
  assumes "env key = Some raw" and "raw \<noteq> []"
  shows "ReadEnv L TString env key d = Returns (VString raw, None)"
  using assms by (simp add: ReadEnv_TString Getenv_def)

theorem ReadEnv_string_witness:
  "ReadEnv (strconv 64 noWide) TString [''TEST_STRING'' \<mapsto> ''hello_world''] ''TEST_STRING''
     (VString ''default'')
   = Returns (VString ''hello_world'', None)"
proof -
  have e: "[''TEST_STRING'' \<mapsto> ''hello_world''] ''TEST_STRING'' = Some ''hello_world''" by simp
  have r: "''hello_world'' \<noteq> []" by simp
  from ReadEnv_string [where env = "[''TEST_STRING'' \<mapsto> ''hello_world'']" and key = "''TEST_STRING''",
         OF e r]
  show ?thesis .
qed


subsection \<open>The returned value\<close>

text \<open>
  Claim C2. For every type, key and default value, the value that ReadEnv returns is
  either the value that the conversion of the raw string gave without an error, or exactly
  the default value; and whenever ReadEnv returns an error, the value is the default value
  (never the zero value of \<open>T\<close> or a value of a failed conversion).
\<close>

theorem ReadEnv_parsed_or_default:
  assumes "ReadEnv L T env key d = Returns (v, e)"
  shows "(v = d \<or> (e = None \<and> converted L T (Getenv env key) v))
         \<and> (e \<noteq> None \<longrightarrow> v = d)"
proof (cases "Getenv env key = []")
  case True
  with assms show ?thesis by (simp add: ReadEnv_empty)
next
  case False
  show ?thesis
  proof (cases "supported T")
    case False
    with \<open>Getenv env key \<noteq> []\<close> assms show ?thesis by (simp add: ReadEnv_not_supported)
  next
    case True
    then consider "T = TInt" | "T = TInt64" | "T = TString" | "T = TBool" | "T = TFloat64"
      by (auto simp: supported_def)
    then show ?thesis
    proof cases
      case 1
      with False assms show ?thesis
        by (auto simp: ReadEnv_TInt converted_def split: prod.splits option.splits)
    next
      case 2
      with False assms show ?thesis
        by (auto simp: ReadEnv_TInt64 converted_def split: prod.splits option.splits)
    next
      case 3
      with False assms show ?thesis
        by (auto simp: ReadEnv_TString converted_def)
    next
      case 4
      with False assms show ?thesis
        by (auto simp: ReadEnv_TBool converted_def split: prod.splits option.splits)
    next
      case 5
      with False assms show ?thesis
        by (auto simp: ReadEnv_TFloat64 converted_def split: prod.splits option.splits)
    qed
  qed
qed

theorem ReadEnv_parsed_or_default_witness:
  "ReadEnv (strconv 64 noWide) TInt [''TEST_INT'' \<mapsto> ''123''] ''TEST_INT'' (VInt 0)
     = Returns (VInt 123, None)
   \<and> converted (strconv 64 noWide) TInt ''123'' (VInt 123)
   \<and> ReadEnv (strconv 64 noWide) TFloat64 [''TEST_INVALID_FLOAT'' \<mapsto> ''not_a_float'']
       ''TEST_INVALID_FLOAT'' (VFloat64 0x4016000000000000)
     = Returns (VFloat64 0x4016000000000000,
         Some (Errorf_convert (strconv 64 noWide) ''float64'' ''not_a_float''
                (NumError ''ParseFloat'' ''not_a_float'' ErrSyntax)))"
proof -
  have g1: "Getenv [''TEST_INT'' \<mapsto> ''123''] ''TEST_INT'' = ''123''"
    by (simp add: Getenv_def)
  have r1: "ReadEnv (strconv 64 noWide) TInt [''TEST_INT'' \<mapsto> ''123''] ''TEST_INT'' (VInt 0)
              = Returns (VInt 123, None)"
    by (simp add: ReadEnv_TInt g1 strconv_def Atoi_123)
  have g2: "Getenv [''TEST_INVALID_FLOAT'' \<mapsto> ''not_a_float''] ''TEST_INVALID_FLOAT'' = ''not_a_float''"
    by (simp add: Getenv_def)
  have r2: "ReadEnv (strconv 64 noWide) TFloat64 [''TEST_INVALID_FLOAT'' \<mapsto> ''not_a_float'']
              ''TEST_INVALID_FLOAT'' (VFloat64 0x4016000000000000)
            = Returns (VFloat64 0x4016000000000000,
                Some (Errorf_convert (strconv 64 noWide) ''float64'' ''not_a_float''
                       (NumError ''ParseFloat'' ''not_a_float'' ErrSyntax)))"
    by (simp add: ReadEnv_TFloat64 g2 strconv_def ParseFloat_not_a_float)
  from ReadEnv_parsed_or_default [OF r1] ReadEnv_parsed_or_default [OF r2] r1 r2 g1
  show ?thesis by simp
qed

subsection \<open>Well-formed values\<close>




subsection \<open>Conversion errors\<close>



lemma ReadEnv_error_origin:
  assumes "supported T" and "ReadEnv L T env key d = Returns (v, Some e)"
  shows "\<exists>err. parse_error L T (Getenv env key) = Some err
               \<and> e = Errorf_convert L (fmt_T (zero T)) (Getenv env key) err"
proof -
  have ne: "Getenv env key \<noteq> []"
  proof
    assume "Getenv env key = []"
    with assms(2) show False by (simp add: ReadEnv_empty)
  qed
  from assms(1) consider "T = TInt" | "T = TInt64" | "T = TString" | "T = TBool" | "T = TFloat64"
    by (auto simp: supported_def)
  then show ?thesis
  proof cases
    case 1
    with ne assms(2) show ?thesis
      by (auto simp: ReadEnv_TInt parse_error_def split: prod.splits option.splits)
  next
    case 2
    with ne assms(2) show ?thesis
      by (auto simp: ReadEnv_TInt64 parse_error_def split: prod.splits option.splits)
  next
    case 3
    with ne assms(2) show ?thesis by (simp add: ReadEnv_TString)
  next
    case 4
    with ne assms(2) show ?thesis
      by (auto simp: ReadEnv_TBool parse_error_def split: prod.splits option.splits)
  next
    case 5
    with ne assms(2) show ?thesis
      by (auto simp: ReadEnv_TFloat64 parse_error_def split: prod.splits option.splits)
  qed
qed





subsection \<open>The chain of errors\<close>

text \<open>
  Claim C6. Every error that ReadEnv returns for a supported type wraps the error of the
  parser: \<^verbatim>\<open>Unwrap\<close> gives that error, and \<^verbatim>\<open>errors.Is\<close> on the returned error finds what it
  finds on the error of the parser. With package strconv the error of the parser is a
  \<^verbatim>\<open>NumError\<close> for the raw value whose cause is \<^verbatim>\<open>ErrSyntax\<close> for a failure of syntax and
  \<^verbatim>\<open>ErrRange\<close> for a failure of range, and \<^verbatim>\<open>errors.Is\<close> on the returned error holds for exactly
  that one of the two sentinels.
\<close>

theorem ReadEnv_error_chain:
  assumes "supported T"
    and "ReadEnv (strconv intSize tab) T env key d = Returns (v, Some e)"
  shows "\<exists>err fn cause.
           parse_error (strconv intSize tab) T (Getenv env key) = Some err
           \<and> Unwrap e = Some err
           \<and> errors_Is e target = (e = target \<or> errors_Is err target)
           \<and> err = NumError fn (Getenv env key) cause
           \<and> Unwrap err = Some cause
           \<and> (cause = ErrSyntax \<or> cause = ErrRange)
           \<and> errors_Is e ErrSyntax = (cause = ErrSyntax)
           \<and> errors_Is e ErrRange = (cause = ErrRange)
           \<and> errors_Is e ErrSyntax \<noteq> errors_Is e ErrRange"
proof -
  from ReadEnv_error_origin [OF assms]
  obtain err where pe: "parse_error (strconv intSize tab) T (Getenv env key) = Some err"
    and e: "e = Errorf_convert (strconv intSize tab) (fmt_T (zero T)) (Getenv env key) err"
    by blast
  from strconv_parse_error [OF pe]
  obtain fn where "err = NumError fn (Getenv env key) ErrSyntax
                   \<or> err = NumError fn (Getenv env key) ErrRange"
    by blast
  then obtain cause where err: "err = NumError fn (Getenv env key) cause"
    and cause: "cause = ErrSyntax \<or> cause = ErrRange"
    by blast
  from e have u: "Unwrap e = Some err" by (simp add: Errorf_convert_def)
  from e have i: "errors_Is e target = (e = target \<or> errors_Is err target)"
    by (simp add: Errorf_convert_def)
  from e err cause have s: "errors_Is e ErrSyntax = (cause = ErrSyntax)"
    by (auto simp: Errorf_convert_def)
  from e err cause have g: "errors_Is e ErrRange = (cause = ErrRange)"
    by (auto simp: Errorf_convert_def)
  from s g cause have x: "errors_Is e ErrSyntax \<noteq> errors_Is e ErrRange" by auto
  from err have uc: "Unwrap err = Some cause" by simp
  from pe u i err uc cause s g x show ?thesis by blast
qed

theorem ReadEnv_error_chain_witness:
  "Unwrap (Errorf_convert (strconv 64 noWide) ''int'' ''abc'' (NumError ''Atoi'' ''abc'' ErrSyntax))
     = Some (NumError ''Atoi'' ''abc'' ErrSyntax)
   \<and> errors_Is (Errorf_convert (strconv 64 noWide) ''int'' ''abc'' (NumError ''Atoi'' ''abc'' ErrSyntax))
       ErrSyntax
   \<and> \<not> errors_Is (Errorf_convert (strconv 64 noWide) ''int'' ''abc'' (NumError ''Atoi'' ''abc'' ErrSyntax))
       ErrRange
   \<and> ReadEnv (strconv 64 noWide) TInt [''TEST_INVALID_INT'' \<mapsto> ''abc''] ''TEST_INVALID_INT'' (VInt 10)
     = Returns (VInt 10,
         Some (Errorf_convert (strconv 64 noWide) ''int'' ''abc'' (NumError ''Atoi'' ''abc'' ErrSyntax)))
   \<and> errors_Is (Errorf_convert (strconv 64 noWide) ''int'' ''99999999999999999999''
                  (NumError ''Atoi'' ''99999999999999999999'' ErrRange)) ErrRange
   \<and> \<not> errors_Is (Errorf_convert (strconv 64 noWide) ''int'' ''99999999999999999999''
                  (NumError ''Atoi'' ''99999999999999999999'' ErrRange)) ErrSyntax
   \<and> ReadEnv (strconv 64 noWide) TInt [''TEST_INVALID_INT'' \<mapsto> ''99999999999999999999'']
       ''TEST_INVALID_INT'' (VInt 10)
     = Returns (VInt 10,
         Some (Errorf_convert (strconv 64 noWide) ''int'' ''99999999999999999999''
                (NumError ''Atoi'' ''99999999999999999999'' ErrRange)))"
proof -
  have su: "supported TInt" by (simp add: supported_def)
  have g1: "Getenv [''TEST_INVALID_INT'' \<mapsto> ''abc''] ''TEST_INVALID_INT'' = ''abc''"
    by (simp add: Getenv_def)
  have r1: "ReadEnv (strconv 64 noWide) TInt [''TEST_INVALID_INT'' \<mapsto> ''abc''] ''TEST_INVALID_INT''
              (VInt 10)
            = Returns (VInt 10,
                Some (Errorf_convert (strconv 64 noWide) ''int'' ''abc''
                       (NumError ''Atoi'' ''abc'' ErrSyntax)))"
    by (simp add: ReadEnv_TInt g1 strconv_def Atoi_abc)
  have g2: "Getenv [''TEST_INVALID_INT'' \<mapsto> ''99999999999999999999''] ''TEST_INVALID_INT''
            = ''99999999999999999999''"
    by (simp add: Getenv_def)
  have r2: "ReadEnv (strconv 64 noWide) TInt [''TEST_INVALID_INT'' \<mapsto> ''99999999999999999999'']
              ''TEST_INVALID_INT'' (VInt 10)
            = Returns (VInt 10,
                Some (Errorf_convert (strconv 64 noWide) ''int'' ''99999999999999999999''
                       (NumError ''Atoi'' ''99999999999999999999'' ErrRange)))"
    by (simp add: ReadEnv_TInt g2 strconv_def Atoi_too_big)
  from ReadEnv_error_chain [OF su r1, of ErrSyntax] ReadEnv_error_chain [OF su r2, of ErrRange] r1 r2
  show ?thesis by (auto simp: Errorf_convert_def)
qed

subsection \<open>Booleans\<close>




end
